theory Spec2Isabelle
  imports Main "HOL-Library.Sublist" "HOL-Library.Multiset" "HOL-Library.Product_Lexorder"
begin

section \<open>Data model\<close>

text \<open>
  A timestamp field holds a date-time string of the backend, or is absent (\<^verbatim>\<open>undefined\<close>
  or \<^verbatim>\<open>null\<close>, here \<open>None\<close>). The pages use a present string in two ways: as a truth
  value, and through \<^verbatim>\<open>new Date(s).getTime()\<close>, which gives the epoch milliseconds of a
  string that parses as a date and NaN of one that does not. The model stores this time
  value in place of the string. A present string is not empty, so it is truthy; the empty
  string is outside the model.
\<close>

datatype TimeValue = Millis int | NaN

type_synonym timestamp = TimeValue

text \<open>
  The comparisons \<^verbatim>\<open><\<close> and \<^verbatim>\<open>>\<close> of JavaScript on time values: every comparison
  with NaN is false.
\<close>

fun js_lt :: "TimeValue \<Rightarrow> TimeValue \<Rightarrow> bool" where
  "js_lt (Millis x) (Millis y) \<longleftrightarrow> x < y"
| "js_lt NaN y \<longleftrightarrow> False"
| "js_lt x NaN \<longleftrightarrow> False"

fun js_gt :: "TimeValue \<Rightarrow> TimeValue \<Rightarrow> bool" where
  "js_gt (Millis x) (Millis y) \<longleftrightarrow> x > y"
| "js_gt NaN y \<longleftrightarrow> False"
| "js_gt x NaN \<longleftrightarrow> False"

text \<open>
  Modelled from the spec: the declaration of the reservation's status in
  \<^verbatim>\<open>entities/booking/model/types\<close> is not among the sources. The values are those of the
  data model; the page compares the status with the literals COMPLETED, CANCELLED, EXPIRED
  and RETURNED.
\<close>

datatype ReservationStatus = PENDING_RESERVED | COMPLETED | CANCELLED | EXPIRED | RETURNED

text \<open>
  Modelled from the spec: the declaration of \<^verbatim>\<open>BookStatus\<close> in
  \<^verbatim>\<open>entities/book/model/types\<close> is not among the sources. The values are those of the
  data model, which are also the cases of the status switches of the book page.
\<close>

datatype BookStatus =
  Book_AVAILABLE | Book_RESERVED | Book_TAKEN | Book_IN_YOUR_HANDS | Book_RETURNED

text \<open>The status the page of the user's books derives for a reservation.\<close>

datatype MyBookStatus = My_TAKEN | My_RESERVED | My_RETURNED | My_CANCELLED

text \<open>
  Modelled from the spec: the declaration of \<^verbatim>\<open>Reservation\<close> in
  \<^verbatim>\<open>entities/booking/model/types\<close> is not among the sources. The fields are those of the
  data model and the optional \<^verbatim>\<open>bookTitle\<close> the page reads; \<open>rid\<close> is the field
  \<^verbatim>\<open>id\<close>.
\<close>

record Reservation =
  rid :: int
  bookId :: int
  bookTitle :: "string option"
  status :: ReservationStatus
  reservedAt :: "timestamp option"
  takenAt :: "timestamp option"
  returnedAt :: "timestamp option"

text \<open>JavaScript truthiness of an optional field, as used by \<^verbatim>\<open>||\<close>, \<^verbatim>\<open>&&\<close> and \<^verbatim>\<open>!\<close>.\<close>

fun truthy :: "'a option \<Rightarrow> bool" where
  "truthy None = False"
| "truthy (Some v) = True"

section \<open>MyBooksPage: timestamp, status resolver, comparator, picker\<close>

text \<open>
  \<^verbatim>\<open>new Date(r.returnedAt ?? r.takenAt ?? r.reservedAt ?? 0).getTime()\<close>: the time value
  of the first field present, and \<^verbatim>\<open>new Date(0).getTime()\<close>, which is 0, when none is.
\<close>

definition getReservationTimestamp :: "Reservation \<Rightarrow> TimeValue" where
  "getReservationTimestamp reservation =
     (case returnedAt reservation of
        Some t \<Rightarrow> t
      | None \<Rightarrow>
          (case takenAt reservation of
             Some t \<Rightarrow> t
           | None \<Rightarrow> (case reservedAt reservation of Some t \<Rightarrow> t | None \<Rightarrow> Millis 0)))"

definition getMyBookStatus :: "Reservation \<Rightarrow> BookStatus option \<Rightarrow> MyBookStatus" where
  "getMyBookStatus reservation bookStatus =
     (let isInHandsByBookStatus =
            (bookStatus = Some Book_IN_YOUR_HANDS \<or> bookStatus = Some Book_TAKEN)
      in if truthy (returnedAt reservation) \<or> status reservation = RETURNED then My_RETURNED
         else if status reservation = COMPLETED \<and> \<not> isInHandsByBookStatus then My_RETURNED
         else if truthy (takenAt reservation) \<or> status reservation = COMPLETED then My_TAKEN
         else if status reservation = CANCELLED \<or> status reservation = EXPIRED
           then My_CANCELLED
         else My_RESERVED)"

fun myBookStatusPriority :: "MyBookStatus \<Rightarrow> nat" where
  "myBookStatusPriority My_RETURNED = 4"
| "myBookStatusPriority My_TAKEN = 3"
| "myBookStatusPriority My_RESERVED = 2"
| "myBookStatusPriority My_CANCELLED = 1"

text \<open>The comparator calls \<^verbatim>\<open>getMyBookStatus\<close> with one argument: the book status is absent.\<close>

definition pickMoreRelevantReservation :: "Reservation \<Rightarrow> Reservation \<Rightarrow> Reservation" where
  "pickMoreRelevantReservation current next =
     (let currentTimestamp = getReservationTimestamp current;
          nextTimestamp = getReservationTimestamp next
      in if js_gt nextTimestamp currentTimestamp then next
         else if js_lt nextTimestamp currentTimestamp then current
         else
           (let currentPriority = myBookStatusPriority (getMyBookStatus current None);
                nextPriority = myBookStatusPriority (getMyBookStatus next None)
            in if nextPriority > currentPriority then next
               else if nextPriority < currentPriority then current
               else if rid next \<ge> rid current then next else current))"

text \<open>
  The loop of \<^verbatim>\<open>ownedBooks\<close> over the reservations: one step stores the reservation
  under its book when the book has none yet, and the more relevant of the two otherwise.
\<close>

definition latestStep ::
  "(int \<rightharpoonup> Reservation) \<Rightarrow> Reservation \<Rightarrow> (int \<rightharpoonup> Reservation)" where
  "latestStep latest reservation =
     (case latest (bookId reservation) of
        None \<Rightarrow> latest(bookId reservation \<mapsto> reservation)
      | Some previous \<Rightarrow>
          latest(bookId reservation \<mapsto> pickMoreRelevantReservation previous reservation))"

fun latestLoop ::
  "(int \<rightharpoonup> Reservation) \<Rightarrow> Reservation list \<Rightarrow> (int \<rightharpoonup> Reservation)" where
  "latestLoop latest [] = latest"
| "latestLoop latest (reservation # rest) = latestLoop (latestStep latest reservation) rest"

definition latestReservationByBook :: "Reservation list \<Rightarrow> (int \<rightharpoonup> Reservation)" where
  "latestReservationByBook reservations = latestLoop Map.empty reservations"

section \<open>BookDetails: classification of a failed mutation's error\<close>

text \<open>
  The error of a rejected call carries an optional \<^verbatim>\<open>response\<close> with an optional numeric
  \<^verbatim>\<open>status\<close> and a \<^verbatim>\<open>data\<close> of unknown type: a string, an object with optional
  \<^verbatim>\<open>message\<close> and \<^verbatim>\<open>error\<close> fields, or anything else (absent, null, a number).
\<close>

datatype ResponseData =
  DataString string
| DataObject "string option" "string option"
| DataOther

record Response =
  resp_data :: ResponseData
  resp_status :: "int option"

type_synonym ApiError = "Response option"

text \<open>
  What the page shows: the translation \<^verbatim>\<open>t(key)\<close> of a message key, or a server
  message as it came.
\<close>

datatype Message = Translated string | Raw string

text \<open>
  \<^verbatim>\<open>toLocaleLowerCase("en-US")\<close> on the characters of a \<open>string\<close>: the letters A to Z
  are lowered and every other character is kept.
\<close>

definition lowerChar :: "char \<Rightarrow> char" where
  "lowerChar c =
     (let n = (of_char c :: nat) in if 65 \<le> n \<and> n \<le> 90 then char_of (n + 32) else c)"

definition toLocaleLowerCase :: "string \<Rightarrow> string" where
  "toLocaleLowerCase s = map lowerChar s"

text \<open>\<^verbatim>\<open>s.includes(part)\<close>: \<open>part\<close> occurs in \<open>s\<close> as a contiguous run.\<close>

definition includes_str :: "string \<Rightarrow> string \<Rightarrow> bool" where
  "includes_str s part = sublist part s"

definition rawMessageOf :: "ResponseData \<Rightarrow> string" where
  "rawMessageOf d =
     (case d of
        DataString s \<Rightarrow> s
      | DataObject message err \<Rightarrow>
          (case message of
             Some m \<Rightarrow> m
           | None \<Rightarrow> (case err of Some e \<Rightarrow> e | None \<Rightarrow> ''''))
      | DataOther \<Rightarrow> '''')"

definition resolveReservationErrorMessage :: "ApiError \<Rightarrow> Message" where
  "resolveReservationErrorMessage error =
     (let response = error;
          rstatus = (case response of None \<Rightarrow> None | Some r \<Rightarrow> resp_status r);
          rdata = (case response of None \<Rightarrow> DataOther | Some r \<Rightarrow> resp_data r);
          rawMessage = rawMessageOf rdata;
          normalized = toLocaleLowerCase rawMessage
      in if includes_str normalized ''maximum number of reserved books'' \<or>
            includes_str normalized ''maximum number''
         then Translated ''reservation.errors.limitReached''
         else if rstatus = Some 409 then Translated ''reservation.errors.notAvailable''
         else if rstatus = Some 400 \<and> rawMessage \<noteq> '''' then Raw rawMessage
         else Translated ''reservation.errors.generic'')"

text \<open>
  The classification as the specification words it: the limit rule looks for the marker
  "maximum number of reserved books" alone.
\<close>

definition classifySpec :: "ApiError \<Rightarrow> Message" where
  "classifySpec error =
     (let rstatus = (case error of None \<Rightarrow> None | Some r \<Rightarrow> resp_status r);
          rawMessage = rawMessageOf (case error of None \<Rightarrow> DataOther | Some r \<Rightarrow> resp_data r)
      in if includes_str (toLocaleLowerCase rawMessage) ''maximum number of reserved books''
         then Translated ''reservation.errors.limitReached''
         else if rstatus = Some 409 then Translated ''reservation.errors.notAvailable''
         else if rstatus = Some 400 \<and> rawMessage \<noteq> '''' then Raw rawMessage
         else Translated ''reservation.errors.generic'')"

section \<open>BookDetails: action guards\<close>

text \<open>Of a book the guards read the id and the optional status.\<close>

record Book =
  book_id :: int
  book_status :: "BookStatus option"

text \<open>\<^verbatim>\<open>const status = book.status ?? "AVAILABLE"\<close>\<close>

definition status_of_book :: "Book \<Rightarrow> BookStatus" where
  "status_of_book book = (case book_status book of None \<Rightarrow> Book_AVAILABLE | Some s \<Rightarrow> s)"

definition canReserve :: "Reservation option \<Rightarrow> Book \<Rightarrow> bool" where
  "canReserve reservation book \<longleftrightarrow> status_of_book book = Book_AVAILABLE \<and> \<not> truthy reservation"

definition canTake :: "Reservation option \<Rightarrow> bool" where
  "canTake reservation \<longleftrightarrow>
     (case reservation of None \<Rightarrow> False | Some r \<Rightarrow> \<not> truthy (takenAt r))"

definition canReturn :: "Reservation option \<Rightarrow> bool" where
  "canReturn reservation \<longleftrightarrow>
     (case reservation of
        None \<Rightarrow> False
      | Some r \<Rightarrow> truthy (takenAt r) \<and> \<not> truthy (returnedAt r))"

definition canCancel :: "Reservation option \<Rightarrow> bool" where
  "canCancel reservation \<longleftrightarrow>
     (case reservation of None \<Rightarrow> False | Some r \<Rightarrow> \<not> truthy (takenAt r))"

section \<open>BookDetails: the four mutations and the unread counter\<close>

text \<open>
  The query cache holds the unread notification count, the active reservations and the
  data of the book shown, and the keys marked stale by an invalidation.
\<close>

datatype QueryKey = Key_reservations | Key_books | Key_book int

record QueryClient =
  unreadCount :: int
  activeReservations :: "Reservation list"
  bookData :: "Book option"
  staleKeys :: "QueryKey list"

record UnreadContext =
  previous :: int

text \<open>
  The state of the page: the query cache, the id of the book handed over by the route
  (when there is one) and the error shown.
\<close>

record BookDetailsState =
  queryClient :: QueryClient
  stateBookId :: "int option"
  reservationError :: "Message option"

text \<open>
  Modelled from the spec: \<^verbatim>\<open>optimisticIncrementUnread\<close> of
  \<^verbatim>\<open>entities/notification/model/optimisticUnread\<close> is imported by the page and its module
  is not among the sources. The pre-mutation hook reads the cached count n, sets the cache
  to n + 1 and returns the context with previous = n.
\<close>

definition optimisticIncrementUnread :: "QueryClient \<Rightarrow> QueryClient \<times> UnreadContext" where
  "optimisticIncrementUnread qc =
     (qc\<lparr>unreadCount := unreadCount qc + 1\<rparr>, \<lparr>previous = unreadCount qc\<rparr>)"

text \<open>
  Modelled from the spec: \<^verbatim>\<open>rollbackOptimisticUnread\<close> of the same missing module. The
  rollback sets the cached count back to the context's previous.
\<close>

definition rollbackOptimisticUnread :: "QueryClient \<Rightarrow> UnreadContext \<Rightarrow> QueryClient" where
  "rollbackOptimisticUnread qc context = qc\<lparr>unreadCount := previous context\<rparr>"

text \<open>
  Modelled from the spec: \<^verbatim>\<open>syncUnreadNotifications\<close> of the same missing module. The
  resync reads the authoritative count and overwrites the cache unconditionally; the count
  the server answers with is the argument \<open>serverCount\<close>.
\<close>

definition syncUnreadNotifications :: "int \<Rightarrow> QueryClient \<Rightarrow> QueryClient" where
  "syncUnreadNotifications serverCount qc = qc\<lparr>unreadCount := serverCount\<rparr>"

text \<open>
  The book of the page: the fetched one, else the one built from the route's state, which
  has no status.
\<close>

definition currentBook :: "BookDetailsState \<Rightarrow> Book option" where
  "currentBook st =
     (case bookData (queryClient st) of
        Some b \<Rightarrow> Some b
      | None \<Rightarrow>
          (case stateBookId st of
             Some i \<Rightarrow> Some \<lparr>book_id = i, book_status = None\<rparr>
           | None \<Rightarrow> None))"

definition currentReservation :: "BookDetailsState \<Rightarrow> Reservation option" where
  "currentReservation st =
     (case currentBook st of
        None \<Rightarrow> None
      | Some b \<Rightarrow> find (\<lambda>item. bookId item = book_id b) (activeReservations (queryClient st)))"

definition invalidateReservations :: "BookDetailsState \<Rightarrow> BookDetailsState" where
  "invalidateReservations st =
     (let qc = queryClient st;
          keys = staleKeys qc @ [Key_reservations, Key_books];
          keys' = (case currentBook st of
                     Some b \<Rightarrow> if book_id b \<noteq> 0 then keys @ [Key_book (book_id b)] else keys
                   | None \<Rightarrow> keys)
      in st\<lparr>queryClient := qc\<lparr>staleKeys := keys'\<rparr>\<rparr>)"

text \<open>
  The four mutations carry the same handlers; the argument of each is the book or the
  reservation it acts on. The call itself runs on the server: its outcome is an input.
\<close>

datatype Mutation =
  reserveMutation int
| takeMutation int
| returnMutation int
| cancelMutation int

datatype MutationOutcome = Resolved | Rejected ApiError

definition onMutate :: "Mutation \<Rightarrow> BookDetailsState \<Rightarrow> BookDetailsState \<times> UnreadContext" where
  "onMutate m st =
     (let (qc, context) = optimisticIncrementUnread (queryClient st)
      in (st\<lparr>queryClient := qc\<rparr>, context))"

definition onSuccess :: "Mutation \<Rightarrow> BookDetailsState \<Rightarrow> BookDetailsState" where
  "onSuccess m st = invalidateReservations (st\<lparr>reservationError := None\<rparr>)"

definition onError ::
  "Mutation \<Rightarrow> ApiError \<Rightarrow> UnreadContext \<Rightarrow> BookDetailsState \<Rightarrow> BookDetailsState" where
  "onError m error context st =
     (let st' = st\<lparr>queryClient := rollbackOptimisticUnread (queryClient st) context\<rparr>
      in st'\<lparr>reservationError := Some (resolveReservationErrorMessage error)\<rparr>)"

definition onSettled :: "Mutation \<Rightarrow> int \<Rightarrow> BookDetailsState \<Rightarrow> BookDetailsState" where
  "onSettled m serverCount st =
     st\<lparr>queryClient := syncUnreadNotifications serverCount (queryClient st)\<rparr>"

text \<open>
  One mutation from dispatch to settlement, in the order the mutation hook runs the
  handlers: \<^verbatim>\<open>onMutate\<close>, then the call, then \<^verbatim>\<open>onSuccess\<close> or \<^verbatim>\<open>onError\<close>, then
  \<^verbatim>\<open>onSettled\<close>. The result lists the state after each of the three handlers.
\<close>

definition mutationPhases ::
  "Mutation \<Rightarrow> MutationOutcome \<Rightarrow> int \<Rightarrow> BookDetailsState \<Rightarrow> BookDetailsState list" where
  "mutationPhases m outcome serverCount st =
     (let (st1, context) = onMutate m st;
          st2 = (case outcome of
                   Resolved \<Rightarrow> onSuccess m st1
                 | Rejected error \<Rightarrow> onError m error context st1);
          st3 = onSettled m serverCount st2
      in [st1, st2, st3])"

definition runMutation ::
  "Mutation \<Rightarrow> MutationOutcome \<Rightarrow> int \<Rightarrow> BookDetailsState \<Rightarrow> BookDetailsState" where
  "runMutation m outcome serverCount st = last (mutationPhases m outcome serverCount st)"

text \<open>
  The guards of the page. The page returns early when it has no book; with a book it
  derives the four guards from the current reservation and the book.
\<close>

definition guards :: "BookDetailsState \<Rightarrow> (bool \<times> bool \<times> bool \<times> bool) option" where
  "guards st =
     (case currentBook st of
        None \<Rightarrow> None
      | Some b \<Rightarrow>
          Some (canReserve (currentReservation st) b, canTake (currentReservation st),
                canReturn (currentReservation st), canCancel (currentReservation st)))"

section \<open>The comparator's sort key\<close>

text \<open>
  What the comparator looks at, in the order it looks: the timestamp, the priority of the
  derived status, the id. Triples are compared lexicographically. The key orders the
  reservations whose timestamp is a number; \<open>millis\<close> reads that number.
\<close>

fun millis :: "TimeValue \<Rightarrow> int" where
  "millis (Millis x) = x"
| "millis NaN = 0"

definition relevance :: "Reservation \<Rightarrow> int \<times> nat \<times> int" where
  "relevance r =
     (millis (getReservationTimestamp r), myBookStatusPriority (getMyBookStatus r None), rid r)"

section \<open>The resolver as the specification words it\<close>

text \<open>
  The precedence list of the specification: each rule is a condition and the status it
  yields, the first rule whose condition holds decides, and the fallback is RESERVED.
  A timestamp "is set" when the field is present.
\<close>

fun firstMatch :: "(bool \<times> 'a) list \<Rightarrow> 'a \<Rightarrow> 'a" where
  "firstMatch [] fallback = fallback"
| "firstMatch ((cond, res) # rules) fallback = (if cond then res else firstMatch rules fallback)"

definition resolveRules :: "Reservation \<Rightarrow> BookStatus option \<Rightarrow> (bool \<times> MyBookStatus) list" where
  "resolveRules r bs =
     [ (returnedAt r \<noteq> None \<or> status r = RETURNED, My_RETURNED),
       (status r = COMPLETED \<and> bs \<noteq> Some Book_IN_YOUR_HANDS \<and> bs \<noteq> Some Book_TAKEN, My_RETURNED),
       (takenAt r \<noteq> None \<or> status r = COMPLETED, My_TAKEN),
       (status r = CANCELLED \<or> status r = EXPIRED, My_CANCELLED) ]"

definition resolveSpec :: "Reservation \<Rightarrow> BookStatus option \<Rightarrow> MyBookStatus" where
  "resolveSpec r bs = firstMatch (resolveRules r bs) My_RESERVED"

section \<open>Theorems\<close>

lemma truthy_iff: "truthy x \<longleftrightarrow> x \<noteq> None"
  by (cases x) simp_all

lemma js_gt_lt: "js_gt x y \<longleftrightarrow> js_lt y x"
  by (cases x; cases y) simp_all

lemma js_lt_irrefl: "\<not> js_lt x x"
  by (cases x) simp_all

lemma js_lt_asym: "js_lt x y \<Longrightarrow> \<not> js_lt y x"
  by (cases x; cases y) simp_all

text \<open>
  C1. The resolver is a total function of the reservation and the optional book status,
  and its result is the one the first matching rule of the precedence list gives:
  RETURNED when returnedAt is set or the status is RETURNED; else RETURNED when the status
  is COMPLETED and the book status is neither IN_YOUR_HANDS nor TAKEN; else TAKEN when
  takenAt is set or the status is COMPLETED; else CANCELLED when the status is CANCELLED
  or EXPIRED; else RESERVED.
\<close>

theorem getMyBookStatus_precedence:
  "getMyBookStatus reservation bookStatus = resolveSpec reservation bookStatus"
  by (simp add: getMyBookStatus_def resolveSpec_def resolveRules_def truthy_iff)

theorem getMyBookStatus_precedence_witness:
  "getMyBookStatus
     \<lparr>rid = 1, bookId = 1, bookTitle = None, status = COMPLETED, reservedAt = None,
      takenAt = Some (Millis 1706781600000), returnedAt = None\<rparr> (Some Book_RETURNED) = My_RETURNED"
  using getMyBookStatus_precedence
    [of "\<lparr>rid = 1, bookId = 1, bookTitle = None, status = COMPLETED, reservedAt = None,
          takenAt = Some (Millis 1706781600000), returnedAt = None\<rparr>" "Some Book_RETURNED"]
  by (simp add: resolveSpec_def resolveRules_def)

subsection \<open>Comparator and picker on two reservations\<close>

lemma latest_pair:
  "bookId a = bookId b \<Longrightarrow>
   latestReservationByBook [a, b] (bookId a) = Some (pickMoreRelevantReservation a b)"
  by (simp add: latestReservationByBook_def latestStep_def)

text \<open>
  C7. The relevance timestamp of a reservation is returnedAt when set, else takenAt when
  set, else reservedAt when set, else 0. Of two reservations of the same book with
  different timestamps the comparator selects the one with the larger timestamp, in
  either argument order, and so does the picker on the two. Larger is the comparison of
  the code, which is false of a timestamp that is not a number.
\<close>

theorem timestamp_and_larger_wins:
  "(returnedAt r = Some t \<longrightarrow> getReservationTimestamp r = t) \<and>
   (returnedAt r = None \<and> takenAt r = Some t \<longrightarrow> getReservationTimestamp r = t) \<and>
   (returnedAt r = None \<and> takenAt r = None \<and> reservedAt r = Some t \<longrightarrow>
      getReservationTimestamp r = t) \<and>
   (returnedAt r = None \<and> takenAt r = None \<and> reservedAt r = None \<longrightarrow>
      getReservationTimestamp r = Millis 0) \<and>
   (bookId a = bookId b \<and> js_lt (getReservationTimestamp a) (getReservationTimestamp b) \<longrightarrow>
      pickMoreRelevantReservation a b = b \<and> pickMoreRelevantReservation b a = b \<and>
      latestReservationByBook [a, b] (bookId a) = Some b \<and>
      latestReservationByBook [b, a] (bookId a) = Some b)"
proof -
  have stamp: "getReservationTimestamp r =
      (case returnedAt r of Some t \<Rightarrow> t | None \<Rightarrow>
        (case takenAt r of Some t \<Rightarrow> t | None \<Rightarrow>
          (case reservedAt r of Some t \<Rightarrow> t | None \<Rightarrow> Millis 0)))"
    by (simp add: getReservationTimestamp_def)
  have pick: "pickMoreRelevantReservation a b = b \<and> pickMoreRelevantReservation b a = b"
    if "js_lt (getReservationTimestamp a) (getReservationTimestamp b)"
    using that js_lt_asym [OF that]
    by (simp add: pickMoreRelevantReservation_def js_gt_lt)
  have both: "latestReservationByBook [a, b] (bookId a) = Some b \<and>
      latestReservationByBook [b, a] (bookId a) = Some b"
    if "bookId a = bookId b" "js_lt (getReservationTimestamp a) (getReservationTimestamp b)"
    using that pick latest_pair [of a b] latest_pair [of b a] by simp
  show ?thesis using stamp pick both by simp
qed

theorem timestamp_and_larger_wins_witness:
  "getReservationTimestamp
     \<lparr>rid = 11, bookId = 5, bookTitle = None, status = RETURNED, reservedAt = None,
      takenAt = None, returnedAt = Some (Millis 1709337600000)\<rparr> = Millis 1709337600000 \<and>
   latestReservationByBook
     [\<lparr>rid = 10, bookId = 5, bookTitle = None, status = COMPLETED, reservedAt = None,
       takenAt = Some (Millis 1709251200000), returnedAt = None\<rparr>,
      \<lparr>rid = 11, bookId = 5, bookTitle = None, status = RETURNED, reservedAt = None,
       takenAt = None, returnedAt = Some (Millis 1709337600000)\<rparr>] 5 =
     Some \<lparr>rid = 11, bookId = 5, bookTitle = None, status = RETURNED, reservedAt = None,
           takenAt = None, returnedAt = Some (Millis 1709337600000)\<rparr>"
  using timestamp_and_larger_wins
    [of "\<lparr>rid = 11, bookId = 5, bookTitle = None, status = RETURNED, reservedAt = None,
          takenAt = None, returnedAt = Some (Millis 1709337600000)\<rparr>"
        "Millis 1709337600000"
        "\<lparr>rid = 10, bookId = 5, bookTitle = None, status = COMPLETED, reservedAt = None,
          takenAt = Some (Millis 1709251200000), returnedAt = None\<rparr>"
        "\<lparr>rid = 11, bookId = 5, bookTitle = None, status = RETURNED, reservedAt = None,
          takenAt = None, returnedAt = Some (Millis 1709337600000)\<rparr>"]
  by (simp add: getReservationTimestamp_def)

text \<open>
  C6. Of two reservations of the same book whose timestamps are equal and whose derived
  statuses (as the comparator derives them, without a book status) are identical, the
  comparator and the picker select the one with the larger id, in either order.
\<close>

theorem tie_break_larger_id:
  assumes "bookId a = bookId b"
    and "getReservationTimestamp a = getReservationTimestamp b"
    and "getMyBookStatus a None = getMyBookStatus b None"
    and "rid a < rid b"
  shows "pickMoreRelevantReservation a b = b \<and> pickMoreRelevantReservation b a = b \<and>
     latestReservationByBook [a, b] (bookId a) = Some b \<and>
     latestReservationByBook [b, a] (bookId a) = Some b"
proof -
  have pick: "pickMoreRelevantReservation a b = b \<and> pickMoreRelevantReservation b a = b"
    using assms(2,3,4) by (simp add: pickMoreRelevantReservation_def js_gt_lt js_lt_irrefl)
  then show ?thesis using assms(1) latest_pair [of a b] latest_pair [of b a] by simp
qed

theorem tie_break_larger_id_witness:
  "latestReservationByBook
     [\<lparr>rid = 8, bookId = 7, bookTitle = None, status = PENDING_RESERVED,
       reservedAt = Some (Millis 1704067200000), takenAt = None, returnedAt = None\<rparr>,
      \<lparr>rid = 3, bookId = 7, bookTitle = None, status = PENDING_RESERVED,
       reservedAt = Some (Millis 1704067200000), takenAt = None, returnedAt = None\<rparr>] 7 =
     Some \<lparr>rid = 8, bookId = 7, bookTitle = None, status = PENDING_RESERVED,
           reservedAt = Some (Millis 1704067200000), takenAt = None, returnedAt = None\<rparr>"
  using tie_break_larger_id
    [of "\<lparr>rid = 3, bookId = 7, bookTitle = None, status = PENDING_RESERVED,
          reservedAt = Some (Millis 1704067200000), takenAt = None, returnedAt = None\<rparr>"
        "\<lparr>rid = 8, bookId = 7, bookTitle = None, status = PENDING_RESERVED,
          reservedAt = Some (Millis 1704067200000), takenAt = None, returnedAt = None\<rparr>"]
  by (simp add: getReservationTimestamp_def getMyBookStatus_def)

subsection \<open>Guards\<close>

text \<open>
  C5. For every current reservation (or none) and every book, at most one of canReserve,
  canTake and canReturn holds: canReserve holds exactly when the status of the book is
  AVAILABLE and there is no current reservation, canTake exactly when there is a
  reservation with takenAt unset, canReturn exactly when there is a reservation with
  takenAt set and returnedAt unset.
\<close>

theorem guard_exclusivity:
  "length (filter id [canReserve res bk, canTake res, canReturn res]) \<le> 1 \<and>
   (canReserve res bk \<longleftrightarrow> status_of_book bk = Book_AVAILABLE \<and> res = None) \<and>
   (canTake res \<longleftrightarrow> (\<exists>r. res = Some r \<and> takenAt r = None)) \<and>
   (canReturn res \<longleftrightarrow> (\<exists>r. res = Some r \<and> takenAt r \<noteq> None \<and> returnedAt r = None))"
  by (cases res) (auto simp: canReserve_def canTake_def canReturn_def truthy_iff)

theorem guard_exclusivity_witness:
  "canTake (Some \<lparr>rid = 1, bookId = 1, bookTitle = None, status = PENDING_RESERVED,
      reservedAt = Some (Millis 1704067200000), takenAt = None, returnedAt = None\<rparr>) \<and>
   \<not> canReserve (Some \<lparr>rid = 1, bookId = 1, bookTitle = None, status = PENDING_RESERVED,
      reservedAt = Some (Millis 1704067200000), takenAt = None, returnedAt = None\<rparr>)
      \<lparr>book_id = 1, book_status = Some Book_AVAILABLE\<rparr> \<and>
   \<not> canReturn (Some \<lparr>rid = 1, bookId = 1, bookTitle = None, status = PENDING_RESERVED,
      reservedAt = Some (Millis 1704067200000), takenAt = None, returnedAt = None\<rparr>)"
  using guard_exclusivity
    [of "Some \<lparr>rid = 1, bookId = 1, bookTitle = None, status = PENDING_RESERVED,
           reservedAt = Some (Millis 1704067200000), takenAt = None, returnedAt = None\<rparr>"
        "\<lparr>book_id = 1, book_status = Some Book_AVAILABLE\<rparr>"]
  by simp

text \<open>
  C9. The guards canCancel and canTake are equal: each holds exactly when a reservation
  exists and its takenAt is unset.
\<close>

theorem canCancel_eq_canTake:
  "canCancel res = canTake res \<and>
   (canCancel res \<longleftrightarrow> (\<exists>r. res = Some r \<and> takenAt r = None)) \<and>
   (canTake res \<longleftrightarrow> (\<exists>r. res = Some r \<and> takenAt r = None))"
  by (cases res) (auto simp: canCancel_def canTake_def truthy_iff)

theorem canCancel_eq_canTake_witness:
  "canCancel (Some \<lparr>rid = 1, bookId = 1, bookTitle = None, status = PENDING_RESERVED,
      reservedAt = Some (Millis 1704067200000), takenAt = None, returnedAt = None\<rparr>) \<and>
   canTake (Some \<lparr>rid = 1, bookId = 1, bookTitle = None, status = PENDING_RESERVED,
      reservedAt = Some (Millis 1704067200000), takenAt = None, returnedAt = None\<rparr>)"
  using canCancel_eq_canTake
    [of "Some \<lparr>rid = 1, bookId = 1, bookTitle = None, status = PENDING_RESERVED,
           reservedAt = Some (Millis 1704067200000), takenAt = None, returnedAt = None\<rparr>"]
  by simp

text \<open>
  C10. A book whose status field is absent is treated as AVAILABLE; with such a book,
  canReserve holds whenever there is no current reservation.
\<close>

theorem missing_status_available:
  assumes "book_status bk = None"
  shows "status_of_book bk = Book_AVAILABLE \<and> canReserve None bk \<and>
     (canReserve res bk \<longleftrightarrow> res = None)"
  using assms by (cases res) (simp_all add: status_of_book_def canReserve_def)

theorem missing_status_available_witness:
  "status_of_book \<lparr>book_id = 1, book_status = None\<rparr> = Book_AVAILABLE \<and>
   canReserve None \<lparr>book_id = 1, book_status = None\<rparr>"
  using missing_status_available [of "\<lparr>book_id = 1, book_status = None\<rparr>" None]
  by simp

subsection \<open>Error classification\<close>

lemma marker_in_marker: "sublist ''maximum number'' ''maximum number of reserved books''"
  by code_simp

lemma includes_marker:
  "includes_str s ''maximum number of reserved books'' \<Longrightarrow> includes_str s ''maximum number''"
  unfolding includes_str_def using marker_in_marker by (rule sublist_order.order.trans)

text \<open>
  C4, as the claim states it, fails: a conflict (409) whose message holds "maximum number"
  without "of reserved books" is classified as the reservation limit, where the claim's
  precedence gives "book no longer available".
\<close>

theorem classification_marker_counterexample:
  "resolveReservationErrorMessage
     (Some \<lparr>resp_data = DataString ''Maximum number of requests'', resp_status = Some 409\<rparr>) =
     Translated ''reservation.errors.limitReached'' \<and>
   classifySpec
     (Some \<lparr>resp_data = DataString ''Maximum number of requests'', resp_status = Some 409\<rparr>) =
     Translated ''reservation.errors.notAvailable''"
  by code_simp

text \<open>
  C4, amended. The classification of a failed mutation's error follows this precedence:
  if the server message, lowered, contains "maximum number" (as every message with the
  marker "maximum number of reserved books" does), the reservation-limit message is
  surfaced; otherwise, if the status is 409, the "book no longer available" message;
  otherwise, if the status is 400 and the message is not empty, the message verbatim;
  otherwise the generic message. The server message is the response data when it is a
  string, the \<^verbatim>\<open>message\<close> (else the \<^verbatim>\<open>error\<close>) field when it is an object, and
  empty otherwise.
\<close>

theorem resolveReservationErrorMessage_precedence:
  "resolveReservationErrorMessage error =
     (let rstatus = (case error of None \<Rightarrow> None | Some r \<Rightarrow> resp_status r);
          rawMessage = rawMessageOf (case error of None \<Rightarrow> DataOther | Some r \<Rightarrow> resp_data r)
      in if includes_str (toLocaleLowerCase rawMessage) ''maximum number''
         then Translated ''reservation.errors.limitReached''
         else if rstatus = Some 409 then Translated ''reservation.errors.notAvailable''
         else if rstatus = Some 400 \<and> rawMessage \<noteq> '''' then Raw rawMessage
         else Translated ''reservation.errors.generic'') \<and>
   (includes_str (toLocaleLowerCase
        (rawMessageOf (case error of None \<Rightarrow> DataOther | Some r \<Rightarrow> resp_data r)))
      ''maximum number of reserved books'' \<longrightarrow>
    resolveReservationErrorMessage error = Translated ''reservation.errors.limitReached'')"
  unfolding resolveReservationErrorMessage_def Let_def
  using includes_marker by auto

theorem resolveReservationErrorMessage_precedence_witness:
  "resolveReservationErrorMessage
     (Some \<lparr>resp_data = DataObject (Some ''Maximum number of reserved books reached'') None,
            resp_status = Some 400\<rparr>) = Translated ''reservation.errors.limitReached''"
proof -
  have "includes_str (toLocaleLowerCase
          (rawMessageOf (case Some \<lparr>resp_data =
                DataObject (Some ''Maximum number of reserved books reached'') None,
              resp_status = Some 400\<rparr> of None \<Rightarrow> DataOther | Some r \<Rightarrow> resp_data r)))
        ''maximum number of reserved books''"
    by code_simp
  with conjunct2 [OF resolveReservationErrorMessage_precedence
      [of "Some \<lparr>resp_data = DataObject (Some ''Maximum number of reserved books reached'') None,
                  resp_status = Some 400\<rparr>"]]
  show ?thesis by (rule mp)
qed

subsection \<open>A failed mutation\<close>

lemma currentBook_frame:
  "bookData (queryClient st') = bookData (queryClient st) \<Longrightarrow>
   stateBookId st' = stateBookId st \<Longrightarrow> currentBook st' = currentBook st"
  by (simp add: currentBook_def split: option.splits)

lemma currentReservation_frame:
  "bookData (queryClient st') = bookData (queryClient st) \<Longrightarrow>
   stateBookId st' = stateBookId st \<Longrightarrow>
   activeReservations (queryClient st') = activeReservations (queryClient st) \<Longrightarrow>
   currentReservation st' = currentReservation st"
  using currentBook_frame [of st' st]
  by (simp add: currentReservation_def split: option.splits)

lemma guards_frame:
  "currentBook st' = currentBook st \<Longrightarrow> currentReservation st' = currentReservation st \<Longrightarrow>
   guards st' = guards st"
  by (simp add: guards_def split: option.splits)

lemma failed_phases:
  "mutationPhases m (Rejected e) serverCount st =
     [st\<lparr>queryClient := (queryClient st)\<lparr>unreadCount := unreadCount (queryClient st) + 1\<rparr>\<rparr>,
      st\<lparr>reservationError := Some (resolveReservationErrorMessage e)\<rparr>,
      st\<lparr>queryClient := (queryClient st)\<lparr>unreadCount := serverCount\<rparr>,
         reservationError := Some (resolveReservationErrorMessage e)\<rparr>]"
  by (simp add: mutationPhases_def onMutate_def onError_def onSettled_def
      optimisticIncrementUnread_def rollbackOptimisticUnread_def syncUnreadNotifications_def)

text \<open>
  C3, as the claim states it, fails: with 2 unread notifications cached, a reserve call that
  fails with a conflict, and a server that counts 3 when the resync reads it, the cached
  count ends at 3 and not at its value before the mutation.
\<close>

theorem counter_convergence_counterexample:
  "unreadCount (queryClient (runMutation (reserveMutation 1)
       (Rejected (Some \<lparr>resp_data = DataOther, resp_status = Some 409\<rparr>)) 3
       \<lparr>queryClient = \<lparr>unreadCount = 2, activeReservations = [],
           bookData = Some \<lparr>book_id = 1, book_status = Some Book_AVAILABLE\<rparr>, staleKeys = []\<rparr>,
        stateBookId = None, reservationError = None\<rparr>)) = 3 \<and>
   unreadCount (queryClient
       \<lparr>queryClient = \<lparr>unreadCount = 2, activeReservations = [],
           bookData = Some \<lparr>book_id = 1, book_status = Some Book_AVAILABLE\<rparr>, staleKeys = []\<rparr>,
        stateBookId = None, reservationError = None\<rparr>) = 2"
  by (simp add: runMutation_def failed_phases)

text \<open>
  C3, amended. For every mutation (reserve, take, return, cancel) that fails, the cached
  unread count is its pre-mutation value plus one after the optimistic increment, its
  pre-mutation value after the rollback, and the count the server reports after the
  resync, in this order: the rollback comes before the resync of the same mutation. So
  once both have completed the cached count equals its pre-mutation value exactly when
  the server's count at the resync is that value.
\<close>

theorem failed_mutation_counter:
  "map (\<lambda>s. unreadCount (queryClient s)) (mutationPhases m (Rejected e) serverCount st) =
     [unreadCount (queryClient st) + 1, unreadCount (queryClient st), serverCount] \<and>
   unreadCount (queryClient (runMutation m (Rejected e) serverCount st)) = serverCount \<and>
   (unreadCount (queryClient (runMutation m (Rejected e) serverCount st)) =
      unreadCount (queryClient st) \<longleftrightarrow> serverCount = unreadCount (queryClient st))"
  by (simp add: runMutation_def failed_phases)

theorem failed_mutation_counter_witness:
  "unreadCount (queryClient (runMutation (reserveMutation 1)
       (Rejected (Some \<lparr>resp_data = DataOther, resp_status = Some 409\<rparr>)) 2
       \<lparr>queryClient = \<lparr>unreadCount = 2, activeReservations = [],
           bookData = Some \<lparr>book_id = 1, book_status = Some Book_AVAILABLE\<rparr>, staleKeys = []\<rparr>,
        stateBookId = None, reservationError = None\<rparr>)) = 2"
  using failed_mutation_counter
    [of "reserveMutation 1" "Some \<lparr>resp_data = DataOther, resp_status = Some 409\<rparr>" 2
        "\<lparr>queryClient = \<lparr>unreadCount = 2, activeReservations = [],
            bookData = Some \<lparr>book_id = 1, book_status = Some Book_AVAILABLE\<rparr>, staleKeys = []\<rparr>,
          stateBookId = None, reservationError = None\<rparr>"]
  by simp

text \<open>
  C8. For every failed mutation (reserve, take, return, cancel) the failure handling
  leaves the reservations, the book and the stale marks of the cache as they were, and
  with them the current reservation, the current book and the guards: after the rollback
  the state is the state before the mutation with the error message set, and after the
  resync only the unread count and the error message differ from it.
\<close>

theorem failed_mutation_frame:
  "(case onMutate m st of (st1, context) \<Rightarrow>
      onError m e context st1 =
        st\<lparr>reservationError := Some (resolveReservationErrorMessage e)\<rparr>) \<and>
   runMutation m (Rejected e) serverCount st =
     st\<lparr>queryClient := (queryClient st)\<lparr>unreadCount := serverCount\<rparr>,
        reservationError := Some (resolveReservationErrorMessage e)\<rparr> \<and>
   activeReservations (queryClient (runMutation m (Rejected e) serverCount st)) =
     activeReservations (queryClient st) \<and>
   bookData (queryClient (runMutation m (Rejected e) serverCount st)) =
     bookData (queryClient st) \<and>
   staleKeys (queryClient (runMutation m (Rejected e) serverCount st)) =
     staleKeys (queryClient st) \<and>
   currentReservation (runMutation m (Rejected e) serverCount st) = currentReservation st \<and>
   currentBook (runMutation m (Rejected e) serverCount st) = currentBook st \<and>
   guards (runMutation m (Rejected e) serverCount st) = guards st"
proof -
  let ?st' = "runMutation m (Rejected e) serverCount st"
  have handled: "case onMutate m st of (st1, context) \<Rightarrow>
      onError m e context st1 =
        st\<lparr>reservationError := Some (resolveReservationErrorMessage e)\<rparr>"
    by (simp add: onMutate_def onError_def optimisticIncrementUnread_def
        rollbackOptimisticUnread_def)
  have final: "?st' =
     st\<lparr>queryClient := (queryClient st)\<lparr>unreadCount := serverCount\<rparr>,
        reservationError := Some (resolveReservationErrorMessage e)\<rparr>"
    by (simp add: runMutation_def failed_phases)
  have res: "activeReservations (queryClient ?st') = activeReservations (queryClient st)"
    and bk: "bookData (queryClient ?st') = bookData (queryClient st)"
    and stale: "staleKeys (queryClient ?st') = staleKeys (queryClient st)"
    and route: "stateBookId ?st' = stateBookId st"
    by (simp_all add: final)
  have cb: "currentBook ?st' = currentBook st"
    using bk route by (rule currentBook_frame)
  have cr: "currentReservation ?st' = currentReservation st"
    using bk route res by (rule currentReservation_frame)
  have g: "guards ?st' = guards st"
    using cb cr by (rule guards_frame)
  show ?thesis using handled final res bk stale cr cb g by (simp only: simp_thms)
qed

theorem failed_mutation_frame_witness:
  "guards (runMutation (takeMutation 4)
       (Rejected (Some \<lparr>resp_data = DataOther, resp_status = Some 409\<rparr>)) 2
       \<lparr>queryClient = \<lparr>unreadCount = 2,
           activeReservations =
             [\<lparr>rid = 4, bookId = 1, bookTitle = None, status = PENDING_RESERVED,
               reservedAt = Some (Millis 1704067200000), takenAt = None, returnedAt = None\<rparr>],
           bookData = Some \<lparr>book_id = 1, book_status = Some Book_RESERVED\<rparr>, staleKeys = []\<rparr>,
        stateBookId = None, reservationError = None\<rparr>) =
     Some (False, True, False, True)"
  using failed_mutation_frame
    [where m = "takeMutation 4" and serverCount = 2
       and e = "Some \<lparr>resp_data = DataOther, resp_status = Some 409\<rparr>"
       and st = "\<lparr>queryClient = \<lparr>unreadCount = 2,
            activeReservations =
              [\<lparr>rid = 4, bookId = 1, bookTitle = None, status = PENDING_RESERVED,
                reservedAt = Some (Millis 1704067200000), takenAt = None, returnedAt = None\<rparr>],
            bookData = Some \<lparr>book_id = 1, book_status = Some Book_RESERVED\<rparr>, staleKeys = []\<rparr>,
          stateBookId = None, reservationError = None\<rparr>"]
  by (simp add: guards_def currentBook_def currentReservation_def canReserve_def canTake_def
      canReturn_def canCancel_def status_of_book_def)

subsection \<open>The picker does not depend on the order of the list\<close>

text \<open>On timestamps that are numbers the comparator returns the reservation of the greater key.\<close>

lemma pick_relevance:
  assumes "getReservationTimestamp a \<noteq> NaN" and "getReservationTimestamp b \<noteq> NaN"
  shows "pickMoreRelevantReservation a b = (if relevance a \<le> relevance b then b else a)"
proof -
  obtain x y where "getReservationTimestamp a = Millis x" "getReservationTimestamp b = Millis y"
    using assms by (cases "getReservationTimestamp a"; cases "getReservationTimestamp b") simp_all
  then show ?thesis
    by (auto simp: pickMoreRelevantReservation_def relevance_def less_eq_prod_def Let_def)
qed

lemma pick_one_of: "pickMoreRelevantReservation a b = a \<or> pickMoreRelevantReservation a b = b"
  by (simp add: pickMoreRelevantReservation_def Let_def)

lemma latestStep_other: "bookId r \<noteq> k \<Longrightarrow> latestStep m r k = m k"
  by (simp add: latestStep_def split: option.splits)

lemma latestStep_same:
  "bookId r = k \<Longrightarrow>
   latestStep m r k =
     Some (case m k of None \<Rightarrow> r | Some p \<Rightarrow> pickMoreRelevantReservation p r)"
  by (simp add: latestStep_def split: option.splits)

text \<open>A book has no entry after the loop exactly when it had none and no reservation names it.\<close>

lemma latestLoop_None:
  "latestLoop m rs k = None \<longleftrightarrow> m k = None \<and> (\<forall>y\<in>set rs. bookId y \<noteq> k)"
proof (induction rs arbitrary: m)
  case Nil
  then show ?case by simp
next
  case (Cons r rs)
  show ?case
  proof (cases "bookId r = k")
    case True
    then show ?thesis using Cons.IH [of "latestStep m r"] by (auto simp: latestStep_same)
  next
    case False
    then show ?thesis using Cons.IH [of "latestStep m r"] by (simp add: latestStep_other)
  qed
qed

text \<open>
  When every timestamp is a number, the entry of a book after the loop is one of its
  reservations (or the entry it had), and none of them has a greater sort key.
\<close>

lemma latestLoop_Some:
  assumes "latestLoop m rs k = Some x"
    and "\<forall>y\<in>set rs. getReservationTimestamp y \<noteq> NaN"
    and "\<forall>p. m k = Some p \<longrightarrow> getReservationTimestamp p \<noteq> NaN"
  shows "((x \<in> set rs \<and> bookId x = k) \<or> m k = Some x) \<and>
     (\<forall>y\<in>set rs. bookId y = k \<longrightarrow> relevance y \<le> relevance x) \<and>
     (\<forall>p. m k = Some p \<longrightarrow> relevance p \<le> relevance x)"
  using assms
proof (induction rs arbitrary: m)
  case Nil
  then show ?case by simp
next
  case (Cons r rs)
  from Cons.prems(1) have run: "latestLoop (latestStep m r) rs k = Some x" by simp
  from Cons.prems(2) have num_r: "getReservationTimestamp r \<noteq> NaN"
    and num_rs: "\<forall>y\<in>set rs. getReservationTimestamp y \<noteq> NaN" by simp_all
  show ?case
  proof (cases "bookId r = k")
    case False
    then have "\<forall>p. latestStep m r k = Some p \<longrightarrow> getReservationTimestamp p \<noteq> NaN"
      using Cons.prems(3) by (simp add: latestStep_other)
    from Cons.IH [OF run num_rs this] False show ?thesis by (auto simp: latestStep_other)
  next
    case True
    show ?thesis
    proof (cases "m k")
      case None
      with True have step: "latestStep m r k = Some r" by (simp add: latestStep_same)
      then have "\<forall>p. latestStep m r k = Some p \<longrightarrow> getReservationTimestamp p \<noteq> NaN"
        using num_r by simp
      from Cons.IH [OF run num_rs this] True None step show ?thesis by auto
    next
      case (Some p)
      then have num_p: "getReservationTimestamp p \<noteq> NaN" using Cons.prems(3) by simp
      from True Some have step: "latestStep m r k = Some (pickMoreRelevantReservation p r)"
        by (simp add: latestStep_same)
      have "getReservationTimestamp (pickMoreRelevantReservation p r) \<noteq> NaN"
        using pick_one_of [of p r] num_p num_r by auto
      then have "\<forall>q. latestStep m r k = Some q \<longrightarrow> getReservationTimestamp q \<noteq> NaN"
        using step by simp
      from Cons.IH [OF run num_rs this] True Some step show ?thesis
        by (auto simp: pick_relevance [OF num_p num_r] split: if_splits)
    qed
  qed
qed

lemma latest_is_maximal:
  assumes "latestReservationByBook rs k = Some x"
    and "\<forall>y\<in>set rs. getReservationTimestamp y \<noteq> NaN"
  shows "x \<in> set rs" and "bookId x = k"
    and "\<forall>y\<in>set rs. bookId y = k \<longrightarrow> relevance y \<le> relevance x"
  using latestLoop_Some [of Map.empty rs k x] assms
  by (simp_all add: latestReservationByBook_def)

text \<open>
  C2, as the claim states it, fails, in two ways. A reservation whose timestamp string does
  not parse ties on the timestamp with every other one: of the reservations 2 (timestamp
  100), 4 (timestamp 50) and 3 (timestamp not a number) of book 7, all three reserved, the
  picker selects 3 from the order 2, 4, 3 and 2 from the order 3, 4, 2. And two records of
  one book that carry the same id, the same timestamp and the same derived status tie in
  every comparison: the comparator returns its second argument, and the picker selects
  whichever of the two comes last.
\<close>

theorem pick_order_counterexample:
  "mset [\<lparr>rid = 3, bookId = 7, bookTitle = None, status = PENDING_RESERVED,
           reservedAt = Some NaN, takenAt = None, returnedAt = None\<rparr>,
         \<lparr>rid = 4, bookId = 7, bookTitle = None, status = PENDING_RESERVED,
           reservedAt = Some (Millis 50), takenAt = None, returnedAt = None\<rparr>,
         \<lparr>rid = 2, bookId = 7, bookTitle = None, status = PENDING_RESERVED,
           reservedAt = Some (Millis 100), takenAt = None, returnedAt = None\<rparr>] =
   mset [\<lparr>rid = 2, bookId = 7, bookTitle = None, status = PENDING_RESERVED,
           reservedAt = Some (Millis 100), takenAt = None, returnedAt = None\<rparr>,
         \<lparr>rid = 4, bookId = 7, bookTitle = None, status = PENDING_RESERVED,
           reservedAt = Some (Millis 50), takenAt = None, returnedAt = None\<rparr>,
         \<lparr>rid = 3, bookId = 7, bookTitle = None, status = PENDING_RESERVED,
           reservedAt = Some NaN, takenAt = None, returnedAt = None\<rparr>] \<and>
   latestReservationByBook
     [\<lparr>rid = 2, bookId = 7, bookTitle = None, status = PENDING_RESERVED,
       reservedAt = Some (Millis 100), takenAt = None, returnedAt = None\<rparr>,
      \<lparr>rid = 4, bookId = 7, bookTitle = None, status = PENDING_RESERVED,
       reservedAt = Some (Millis 50), takenAt = None, returnedAt = None\<rparr>,
      \<lparr>rid = 3, bookId = 7, bookTitle = None, status = PENDING_RESERVED,
       reservedAt = Some NaN, takenAt = None, returnedAt = None\<rparr>] 7 =
     Some \<lparr>rid = 3, bookId = 7, bookTitle = None, status = PENDING_RESERVED,
           reservedAt = Some NaN, takenAt = None, returnedAt = None\<rparr> \<and>
   latestReservationByBook
     [\<lparr>rid = 3, bookId = 7, bookTitle = None, status = PENDING_RESERVED,
       reservedAt = Some NaN, takenAt = None, returnedAt = None\<rparr>,
      \<lparr>rid = 4, bookId = 7, bookTitle = None, status = PENDING_RESERVED,
       reservedAt = Some (Millis 50), takenAt = None, returnedAt = None\<rparr>,
      \<lparr>rid = 2, bookId = 7, bookTitle = None, status = PENDING_RESERVED,
       reservedAt = Some (Millis 100), takenAt = None, returnedAt = None\<rparr>] 7 =
     Some \<lparr>rid = 2, bookId = 7, bookTitle = None, status = PENDING_RESERVED,
           reservedAt = Some (Millis 100), takenAt = None, returnedAt = None\<rparr> \<and>
   mset [\<lparr>rid = 1, bookId = 7, bookTitle = None, status = PENDING_RESERVED,
           reservedAt = None, takenAt = None, returnedAt = Some (Millis 5)\<rparr>,
         \<lparr>rid = 1, bookId = 7, bookTitle = None, status = RETURNED,
           reservedAt = Some (Millis 5), takenAt = None, returnedAt = None\<rparr>] =
   mset [\<lparr>rid = 1, bookId = 7, bookTitle = None, status = RETURNED,
           reservedAt = Some (Millis 5), takenAt = None, returnedAt = None\<rparr>,
         \<lparr>rid = 1, bookId = 7, bookTitle = None, status = PENDING_RESERVED,
           reservedAt = None, takenAt = None, returnedAt = Some (Millis 5)\<rparr>] \<and>
   latestReservationByBook
     [\<lparr>rid = 1, bookId = 7, bookTitle = None, status = PENDING_RESERVED,
       reservedAt = None, takenAt = None, returnedAt = Some (Millis 5)\<rparr>,
      \<lparr>rid = 1, bookId = 7, bookTitle = None, status = RETURNED,
       reservedAt = Some (Millis 5), takenAt = None, returnedAt = None\<rparr>] 7 =
     Some \<lparr>rid = 1, bookId = 7, bookTitle = None, status = RETURNED,
           reservedAt = Some (Millis 5), takenAt = None, returnedAt = None\<rparr> \<and>
   latestReservationByBook
     [\<lparr>rid = 1, bookId = 7, bookTitle = None, status = RETURNED,
       reservedAt = Some (Millis 5), takenAt = None, returnedAt = None\<rparr>,
      \<lparr>rid = 1, bookId = 7, bookTitle = None, status = PENDING_RESERVED,
       reservedAt = None, takenAt = None, returnedAt = Some (Millis 5)\<rparr>] 7 =
     Some \<lparr>rid = 1, bookId = 7, bookTitle = None, status = PENDING_RESERVED,
           reservedAt = None, takenAt = None, returnedAt = Some (Millis 5)\<rparr>"
proof -
  let ?r2 = "\<lparr>rid = 2, bookId = 7, bookTitle = None, status = PENDING_RESERVED,
       reservedAt = Some (Millis 100), takenAt = None, returnedAt = None\<rparr>"
  let ?r3 = "\<lparr>rid = 3, bookId = 7, bookTitle = None, status = PENDING_RESERVED,
       reservedAt = Some NaN, takenAt = None, returnedAt = None\<rparr>"
  let ?r4 = "\<lparr>rid = 4, bookId = 7, bookTitle = None, status = PENDING_RESERVED,
       reservedAt = Some (Millis 50), takenAt = None, returnedAt = None\<rparr>"
  let ?p = "\<lparr>rid = 1, bookId = 7, bookTitle = None, status = PENDING_RESERVED,
       reservedAt = None, takenAt = None, returnedAt = Some (Millis 5)\<rparr>"
  let ?q = "\<lparr>rid = 1, bookId = 7, bookTitle = None, status = RETURNED,
       reservedAt = Some (Millis 5), takenAt = None, returnedAt = None\<rparr>"
  have perm3: "mset [?r3, ?r4, ?r2] = mset [?r2, ?r4, ?r3]"
    by (simp only: mset.simps add_mset_commute)
  have perm2: "mset [?p, ?q] = mset [?q, ?p]"
    by (simp only: mset.simps add_mset_commute)
  have pick24: "pickMoreRelevantReservation ?r2 ?r4 = ?r2"
    by (simp add: pickMoreRelevantReservation_def getReservationTimestamp_def)
  have pick23: "pickMoreRelevantReservation ?r2 ?r3 = ?r3"
    by (simp add: pickMoreRelevantReservation_def getReservationTimestamp_def
        getMyBookStatus_def)
  have pick34: "pickMoreRelevantReservation ?r3 ?r4 = ?r4"
    by (simp add: pickMoreRelevantReservation_def getReservationTimestamp_def
        getMyBookStatus_def)
  have pick42: "pickMoreRelevantReservation ?r4 ?r2 = ?r2"
    by (simp add: pickMoreRelevantReservation_def getReservationTimestamp_def)
  have pickpq: "pickMoreRelevantReservation ?p ?q = ?q"
    by (simp add: pickMoreRelevantReservation_def getReservationTimestamp_def
        getMyBookStatus_def)
  have pickqp: "pickMoreRelevantReservation ?q ?p = ?p"
    by (simp add: pickMoreRelevantReservation_def getReservationTimestamp_def
        getMyBookStatus_def)
  have fst3: "latestReservationByBook [?r2, ?r4, ?r3] 7 = Some ?r3"
    by (simp add: latestReservationByBook_def latestStep_def pick24 pick23)
  have snd3: "latestReservationByBook [?r3, ?r4, ?r2] 7 = Some ?r2"
    by (simp add: latestReservationByBook_def latestStep_def pick34 pick42)
  have fst2: "latestReservationByBook [?p, ?q] 7 = Some ?q"
    by (simp add: latestReservationByBook_def latestStep_def pickpq)
  have snd2: "latestReservationByBook [?q, ?p] 7 = Some ?p"
    by (simp add: latestReservationByBook_def latestStep_def pickqp)
  show ?thesis using perm3 fst3 snd3 perm2 fst2 snd2 by (intro conjI)
qed


text \<open>
  C2, amended. For every list of reservations in which the timestamp of every reservation
  is a number (its date string parses) and two reservations of the same book with the
  same id are the same record, and every permutation of that list, the picker yields the
  same selected reservation for each bookId.
\<close>

theorem pick_order_independent:
  assumes perm: "mset rs' = mset rs"
    and num: "\<forall>r\<in>set rs. getReservationTimestamp r \<noteq> NaN"
    and uniq: "\<forall>a\<in>set rs. \<forall>b\<in>set rs. bookId a = bookId b \<and> rid a = rid b \<longrightarrow> a = b"
  shows "latestReservationByBook rs' k = latestReservationByBook rs k"
proof -
  have sets: "set rs' = set rs" using perm by (rule mset_eq_setD)
  have num': "\<forall>r\<in>set rs'. getReservationTimestamp r \<noteq> NaN" using num sets by simp
  show ?thesis
  proof (cases "latestReservationByBook rs k")
    case None
    then have "\<forall>y\<in>set rs. bookId y \<noteq> k"
      by (simp add: latestReservationByBook_def latestLoop_None)
    then have "latestReservationByBook rs' k = None" using sets
      by (simp add: latestReservationByBook_def latestLoop_None)
    then show ?thesis using None by simp
  next
    case (Some x)
    note x = latest_is_maximal [OF Some num]
    have "latestReservationByBook rs' k \<noteq> None"
      using x(1,2) sets by (auto simp: latestReservationByBook_def latestLoop_None)
    then obtain x' where Some': "latestReservationByBook rs' k = Some x'" by blast
    note x' = latest_is_maximal [OF Some' num', unfolded sets]
    have "relevance x' \<le> relevance x" using x(3) x'(1,2) by blast
    moreover have "relevance x \<le> relevance x'" using x'(3) x(1,2) by blast
    ultimately have "relevance x = relevance x'" by (rule order_antisym [symmetric])
    then have "rid x = rid x'" by (simp add: relevance_def)
    moreover have "bookId x = bookId x'" using x(2) x'(2) by simp
    moreover note bspec [OF bspec [OF uniq x(1)] x'(1)]
    ultimately have "x = x'" by (simp only:)
    with Some Some' show ?thesis by simp
  qed
qed

theorem pick_order_independent_witness:
  "latestReservationByBook
     [\<lparr>rid = 11, bookId = 5, bookTitle = None, status = RETURNED, reservedAt = None,
       takenAt = None, returnedAt = Some (Millis 1709337600000)\<rparr>,
      \<lparr>rid = 10, bookId = 5, bookTitle = None, status = COMPLETED, reservedAt = None,
       takenAt = Some (Millis 1709251200000), returnedAt = None\<rparr>] 5 =
   latestReservationByBook
     [\<lparr>rid = 10, bookId = 5, bookTitle = None, status = COMPLETED, reservedAt = None,
       takenAt = Some (Millis 1709251200000), returnedAt = None\<rparr>,
      \<lparr>rid = 11, bookId = 5, bookTitle = None, status = RETURNED, reservedAt = None,
       takenAt = None, returnedAt = Some (Millis 1709337600000)\<rparr>] 5"
proof -
  let ?a = "\<lparr>rid = 10, bookId = 5, bookTitle = None, status = COMPLETED, reservedAt = None,
       takenAt = Some (Millis 1709251200000), returnedAt = None\<rparr>"
  let ?b = "\<lparr>rid = 11, bookId = 5, bookTitle = None, status = RETURNED, reservedAt = None,
       takenAt = None, returnedAt = Some (Millis 1709337600000)\<rparr>"
  have perm: "mset [?b, ?a] = mset [?a, ?b]"
    by (simp only: mset.simps add_mset_commute)
  have num: "\<forall>r\<in>set [?a, ?b]. getReservationTimestamp r \<noteq> NaN"
    by (simp add: getReservationTimestamp_def)
  have uniq: "\<forall>x\<in>set [?a, ?b]. \<forall>y\<in>set [?a, ?b]. bookId x = bookId y \<and> rid x = rid y \<longrightarrow> x = y"
    by simp
  show ?thesis using perm num uniq by (rule pick_order_independent)
qed

end
